theory Spec2Isabelle
  imports Main "HOL-Library.Sublist"
begin

section \<open>Python values the core handles\<close>

text \<open>
  The exceptions that can travel through \<^verbatim>\<open>control_plane.py\<close> and
  \<^verbatim>\<open>tools.py\<close>. A function that may raise returns \<open>py_error + 'a\<close>,
  with \<open>Inl\<close> for the raised exception.
\<close>

datatype py_error =
    TypeError
  | UnboundLocalError string
  | TimeoutExpired
  | FileNotFoundError string
  | UnicodeEncodeError
  | KeyError string
  | OSError string

text \<open>\<^verbatim>\<open>str(e)\<close> for the handlers that put it into an error message.\<close>

fun str_of_error :: "py_error \<Rightarrow> string" where
  "str_of_error TypeError = ''TypeError''"
| "str_of_error (UnboundLocalError v) = ''cannot access local variable '' @ v"
| "str_of_error TimeoutExpired = ''timed out''"
| "str_of_error (FileNotFoundError p) = ''[Errno 2] No such file or directory: '' @ p"
| "str_of_error UnicodeEncodeError = ''surrogates not allowed''"
| "str_of_error (KeyError k) = k"
| "str_of_error (OSError m) = m"

text \<open>
  A Python \<^verbatim>\<open>dict\<close> with string keys is an association list; the first binding of a
  key is the one \<open>map_of\<close> reads. \<^verbatim>\<open>len(d)\<close> counts the distinct keys.
\<close>

type_synonym 'v pydict = "(string \<times> 'v) list"

definition dict_keys :: "'v pydict \<Rightarrow> string list" where
  "dict_keys d = remdups (map fst d)"

definition dict_len :: "'v pydict \<Rightarrow> nat" where
  "dict_len d = length (dict_keys d)"

text \<open>
  \<^verbatim>\<open>str.isspace\<close> on the ASCII range: tab to carriage return, the four
  separators \<^verbatim>\<open>\x1c..\x1f\<close> and the blank. \<^verbatim>\<open>str.strip()\<close> removes such
  characters from both ends.
\<close>

definition py_isspace :: "char \<Rightarrow> bool" where
  "py_isspace c = (let n = (of_char c :: nat) in (9 \<le> n \<and> n \<le> 13) \<or> (28 \<le> n \<and> n \<le> 32))"

definition strip :: "string \<Rightarrow> string" where
  "strip s = rev (dropWhile py_isspace (rev (dropWhile py_isspace s)))"

section \<open>ControlPlane\<close>

subsection \<open>Data\<close>

text \<open>
  \<^verbatim>\<open>self.safety_rules\<close> of \<^verbatim>\<open>ControlPlane.__init__\<close>: the dictionary with the keys
  \<^verbatim>\<open>"max_tools_per_request"\<close> and \<^verbatim>\<open>"allowed_tools"\<close>.
\<close>

record safety_policy =
  max_tools_per_request :: nat
  allowed_tools :: "string list"

definition safety_rules :: safety_policy where
  "safety_rules = \<lparr>
     max_tools_per_request = 5,
     allowed_tools = [''search_knowledge'', ''assess_understanding'',
                      ''update_learner_profile'', ''log_interaction'',
                      ''read_file'', ''list_directory'',
                      ''ingest_document'', ''analyze_image'',
                      ''write_file'', ''delete_file'',
                      ''web_search'', ''fetch_url'', ''execute_command'',
                      ''run_code'', ''set_assignment''] \<rparr>"

text \<open>
  The plan dictionary. \<^verbatim>\<open>plan.get("action")\<close> is \<open>None\<close> when the key is absent, and
  \<^verbatim>\<open>plan.get("parameters", {})\<close> is the empty dictionary then.
\<close>

record 'v plan =
  action :: "string option"
  parameters :: "'v pydict option"
  plan_context :: "string pydict option"

text \<open>What \<^verbatim>\<open>_route_and_execute\<close> returns: the handler's own result, or the dictionary
  \<^verbatim>\<open>{"error": f"unknown action: {action}"}\<close>.\<close>

datatype 'r routed =
    ToolResult 'r
  | UnknownAction "string option"

record ('v, 'r) audit_entry =
  entry_timestamp :: string
  entry_plan :: "'v plan"
  entry_result :: "'r routed"

record ('v, 'r) control_plane =
  execution_log :: "('v, 'r) audit_entry list"

text \<open>
  The two dictionaries \<^verbatim>\<open>execute\<close> returns:
  \<^verbatim>\<open>{"error": "safety validation failed", "plan": plan}\<close> and
  \<^verbatim>\<open>{"success": True, "action": ..., "result": ..., "metadata": {"execution_count": ...,
  "safety_checks_passed": True}}\<close>.
\<close>

datatype ('v, 'r) envelope =
    SafetyFailed "'v plan"
  | Executed "string option" "'r routed" nat bool

text \<open>\<^verbatim>\<open>envelope.get("success")\<close>, \<^verbatim>\<open>envelope.get("error")\<close> and the execution
  count of the metadata.\<close>

fun get_success :: "('v, 'r) envelope \<Rightarrow> bool option" where
  "get_success (SafetyFailed p) = None"
| "get_success (Executed a r n s) = Some True"

fun get_error :: "('v, 'r) envelope \<Rightarrow> string option" where
  "get_error (SafetyFailed p) = Some ''safety validation failed''"
| "get_error (Executed a r n s) = None"

fun get_execution_count :: "('v, 'r) envelope \<Rightarrow> nat option" where
  "get_execution_count (SafetyFailed p) = None"
| "get_execution_count (Executed a r n s) = Some n"

subsection \<open>Validation\<close>

text \<open>Python truthiness of \<^verbatim>\<open>plan.get("action")\<close>: \<open>None\<close> and the empty string are false.\<close>

fun truthy :: "string option \<Rightarrow> bool" where
  "truthy None = False"
| "truthy (Some s) = (s \<noteq> [])"

text \<open>\<^verbatim>\<open>action.split('(')[0].strip() if '(' in action else action\<close>\<close>

definition base_action :: "string \<Rightarrow> string" where
  "base_action a =
     (if CHR ''('' \<in> set a then strip (takeWhile (\<lambda>c. c \<noteq> CHR ''('') a) else a)"

definition get_parameters :: "'v plan \<Rightarrow> 'v pydict" where
  "get_parameters p = (case parameters p of None \<Rightarrow> [] | Some d \<Rightarrow> d)"

text \<open>
  \<^verbatim>\<open>_validate_request\<close> for a dictionary plan. The action test is guarded by
  \<^verbatim>\<open>if action and ...\<close>; the parameter test compares with the literal \<open>10\<close>.
\<close>

definition validate_request :: "'v plan \<Rightarrow> bool" where
  "validate_request p =
     (if truthy (action p) \<and> the (action p) \<notin> set (allowed_tools safety_rules)
         \<and> base_action (the (action p)) \<notin> set (allowed_tools safety_rules)
      then False
      else if dict_len (get_parameters p) > 10 then False
      else True)"

subsection \<open>Routing\<close>

text \<open>
  The signatures of the fifteen bound methods of \<^verbatim>\<open>ToolRegistry\<close> that
  \<^verbatim>\<open>tool_map\<close> holds: the parameters without a default and those with one.
\<close>

record signature =
  required :: "string list"
  optional :: "string list"

definition tool_map :: "string \<Rightarrow> signature option" where
  "tool_map = map_of [
     (''search_knowledge'', \<lparr>required = [''query''], optional = [''filters'', ''session_id'']\<rparr>),
     (''assess_understanding'', \<lparr>required = [''topic''], optional = []\<rparr>),
     (''update_learner_profile'', \<lparr>required = [''topic'', ''proficiency''], optional = []\<rparr>),
     (''log_interaction'', \<lparr>required = [''event'', ''details''], optional = []\<rparr>),
     (''read_file'', \<lparr>required = [''path''], optional = []\<rparr>),
     (''list_directory'', \<lparr>required = [''path''], optional = []\<rparr>),
     (''ingest_document'', \<lparr>required = [''path''], optional = [''session_id'']\<rparr>),
     (''analyze_image'', \<lparr>required = [''image_path'', ''question''], optional = [''agent'']\<rparr>),
     (''write_file'', \<lparr>required = [''path'', ''content''], optional = []\<rparr>),
     (''delete_file'', \<lparr>required = [''path''], optional = []\<rparr>),
     (''web_search'', \<lparr>required = [''query''], optional = []\<rparr>),
     (''fetch_url'', \<lparr>required = [''url''], optional = []\<rparr>),
     (''execute_command'', \<lparr>required = [''command''], optional = [''args'']\<rparr>),
     (''run_code'', \<lparr>required = [''code''], optional = [''language'']\<rparr>),
     (''set_assignment'', \<lparr>required = [''description''], optional = [''language'']\<rparr>)]"

text \<open>
  The call \<^verbatim>\<open>tool_func(**params)\<close> binds the keys of \<^verbatim>\<open>params\<close> to the
  parameters of the method: an unexpected keyword or a missing required argument raises
  \<^verbatim>\<open>TypeError\<close> before the body runs.
\<close>

definition binds :: "signature \<Rightarrow> 'v pydict \<Rightarrow> bool" where
  "binds sg d =
     (list_all (\<lambda>k. k \<in> set (required sg) \<or> k \<in> set (optional sg)) (dict_keys d)
      \<and> list_all (\<lambda>r. r \<in> set (dict_keys d)) (required sg))"

text \<open>
  The bodies of the tools are the parameter \<open>tools\<close>: given the tool's name, the bound
  arguments and the state \<open>'w\<close> of everything outside the control plane, a body returns
  its result or raises, and leaves a new outside state.
\<close>

type_synonym ('v, 'r, 'w) registry = "string \<Rightarrow> 'v pydict \<Rightarrow> 'w \<Rightarrow> (py_error + 'r) \<times> 'w"

definition route_and_execute ::
  "('v, 'r, 'w) registry \<Rightarrow> string option \<Rightarrow> 'v pydict \<Rightarrow> 'w \<Rightarrow> (py_error + 'r routed) \<times> 'w" where
  "route_and_execute tools act params w =
     (case (case act of None \<Rightarrow> None | Some a \<Rightarrow> tool_map a) of
        None \<Rightarrow> (Inr (UnknownAction act), w)
      | Some sg \<Rightarrow>
          if binds sg params
          then (case tools (the act) params w of
                  (Inl e, w') \<Rightarrow> (Inl e, w')
                | (Inr r, w') \<Rightarrow> (Inr (ToolResult r), w'))
          else (Inl TypeError, w))"

subsection \<open>execute\<close>

text \<open>
  \<^verbatim>\<open>ControlPlane.execute\<close>. \<open>now\<close> is what \<^verbatim>\<open>datetime.now().isoformat()\<close>
  gives during the call. The result is the returned envelope or the exception that leaves
  the call, with the control plane and the outside state after it.
\<close>

definition execute ::
  "('v, 'r, 'w) registry \<Rightarrow> string \<Rightarrow> ('v, 'r) control_plane \<Rightarrow> 'w \<Rightarrow> 'v plan
     \<Rightarrow> (py_error + ('v, 'r) envelope) \<times> ('v, 'r) control_plane \<times> 'w" where
  "execute tools now cp w p =
     (if \<not> validate_request p then (Inr (SafetyFailed p), cp, w)
      else
        (case route_and_execute tools (action p) (get_parameters p) w of
           (Inl e, w') \<Rightarrow> (Inl e, cp, w')
         | (Inr res, w') \<Rightarrow>
             (let cp' = cp\<lparr>execution_log := execution_log cp @
                           [\<lparr>entry_timestamp = now, entry_plan = p, entry_result = res\<rparr>]\<rparr>
              in (Inr (Executed (action p) res (length (execution_log cp')) True), cp', w'))))"

text \<open>A sequence of calls, each with its own clock reading, on one control plane.\<close>

fun execute_all ::
  "('v, 'r, 'w) registry \<Rightarrow> ('v, 'r) control_plane \<Rightarrow> 'w \<Rightarrow> (string \<times> 'v plan) list
     \<Rightarrow> (py_error + ('v, 'r) envelope) list \<times> ('v, 'r) control_plane \<times> 'w" where
  "execute_all tools cp w [] = ([], cp, w)"
| "execute_all tools cp w ((now, p) # rest) =
     (case execute tools now cp w p of
        (out, cp', w') \<Rightarrow>
          (case execute_all tools cp' w' rest of
             (outs, cp'', w'') \<Rightarrow> (out # outs, cp'', w'')))"

text \<open>Whether a call returned an envelope with \<^verbatim>\<open>success: True\<close>.\<close>

fun returned_success :: "py_error + ('v, 'r) envelope \<Rightarrow> bool" where
  "returned_success (Inl e) = False"
| "returned_success (Inr env) = (get_success env = Some True)"


section \<open>The operating system as the tools see it\<close>

text \<open>
  The files that exist, with their contents, and the calls of \<^verbatim>\<open>subprocess.run\<close>
  made so far, each with its argument vector and its timeout in seconds. Directories are
  not tracked.
\<close>

record os_state =
  files :: "string \<rightharpoonup> string"
  subprocess_calls :: "(string list \<times> nat) list"

definition os_path_exists :: "os_state \<Rightarrow> string \<Rightarrow> bool" where
  "os_path_exists w p = (files w p \<noteq> None)"

definition os_remove :: "os_state \<Rightarrow> string \<Rightarrow> py_error + os_state" where
  "os_remove w p =
     (if files w p = None then Inl (FileNotFoundError p)
      else Inr (w\<lparr>files := (files w)(p := None)\<rparr>))"

text \<open>
  A child process is what the outside world makes of it: it cannot be started, or it runs
  for some milliseconds and ends with a return code and its two output streams.
  \<^verbatim>\<open>subprocess.run(cmd, capture_output=True, text=True, timeout=t)\<close> raises
  \<^verbatim>\<open>TimeoutExpired\<close> when the child runs longer than \<open>t\<close> seconds. Child processes
  are taken to leave the source file of the job in place.
\<close>

datatype process =
    Runs nat int string string
  | SpawnFails py_error

record completed_process =
  returncode :: int
  stdout :: string
  stderr :: string

definition subprocess_run ::
  "process \<Rightarrow> string list \<Rightarrow> nat \<Rightarrow> os_state \<Rightarrow> (py_error + completed_process) \<times> os_state" where
  "subprocess_run pr argv timeout w =
     (let w' = w\<lparr>subprocess_calls := subprocess_calls w @ [(argv, timeout)]\<rparr> in
      case pr of
        SpawnFails e \<Rightarrow> (Inl e, w')
      | Runs ms rc out err \<Rightarrow>
          if ms > 1000 * timeout then (Inl TimeoutExpired, w')
          else (Inr \<lparr>returncode = rc, stdout = out, stderr = err\<rparr>, w'))"

section \<open>ToolRegistry.run\_code\<close>

text \<open>\<^verbatim>\<open>str.replace(old, new)\<close>: every non-overlapping occurrence, from the left.\<close>

fun replace_from :: "string \<Rightarrow> string \<Rightarrow> nat \<Rightarrow> string \<Rightarrow> string" where
  "replace_from old new k [] = []"
| "replace_from old new (Suc k) (c # s) = replace_from old new k s"
| "replace_from old new 0 (c # s) =
     (if prefix old (c # s) then new @ replace_from old new (length old - 1) s
      else c # replace_from old new 0 s)"

definition str_replace :: "string \<Rightarrow> string \<Rightarrow> string \<Rightarrow> string" where
  "str_replace old new s =
     (if old = [] then new @ concat (map (\<lambda>c. c # new) s) else replace_from old new 0 s)"

text \<open>The table \<^verbatim>\<open>lang_config\<close>; a key a row does not have is \<open>None\<close>.\<close>

record language_profile =
  ext :: string
  cmd :: "string list option"
  compile :: bool
  compiler :: "string option"

definition lang_config :: "string \<Rightarrow> language_profile option" where
  "lang_config = map_of [
     (''python'', \<lparr>ext = ''.py'', cmd = Some [''python3''], compile = False, compiler = None\<rparr>),
     (''javascript'', \<lparr>ext = ''.js'', cmd = Some [''node''], compile = False, compiler = None\<rparr>),
     (''go'', \<lparr>ext = ''.go'', cmd = Some [''go'', ''run''], compile = False, compiler = None\<rparr>),
     (''rust'', \<lparr>ext = ''.rs'', cmd = None, compile = True, compiler = None\<rparr>),
     (''c'', \<lparr>ext = ''.c'', cmd = None, compile = True, compiler = Some ''gcc''\<rparr>),
     (''cpp'', \<lparr>ext = ''.cpp'', cmd = None, compile = True, compiler = Some ''g++''\<rparr>)]"

text \<open>
  What the outside world does during one call of \<^verbatim>\<open>run_code\<close>: the name
  \<^verbatim>\<open>tempfile.NamedTemporaryFile\<close> picks (without the suffix), how writing the source
  goes, how the compiler and the executed program behave, and whether the compiler left a
  file at its output path.

  \<open>CreateFails\<close>: \<^verbatim>\<open>NamedTemporaryFile\<close> itself raises and no file exists.
  \<open>WriteFails\<close>: the file was created (\<^verbatim>\<open>delete=False\<close>) and \<^verbatim>\<open>f.write(code)\<close>
  raises, before \<^verbatim>\<open>temp_path = f.name\<close>. \<open>CloseFails\<close>: leaving the
  \<^verbatim>\<open>with\<close> block raises, after \<^verbatim>\<open>temp_path\<close> is bound.
\<close>

datatype materialize_outcome =
    Materialized
  | CreateFails py_error
  | WriteFails py_error
  | CloseFails py_error

record run_env =
  tmp_stem :: string
  materialize :: materialize_outcome
  compile_proc :: process
  compile_writes_output :: bool
  exec_proc :: process

text \<open>
  The dictionaries \<^verbatim>\<open>run_code\<close> returns: \<^verbatim>\<open>{"error": ...}\<close>, the one with
  \<^verbatim>\<open>"status": "compilation_error"\<close> (language, stderr, return code) and the one with
  \<^verbatim>\<open>"status": "success"\<close> (language, stdout, stderr, return code).
\<close>

datatype run_result =
    ErrorResult string
  | CompilationError string string int
  | Success string string string int

definition unsupported_message :: "string \<Rightarrow> string" where
  "unsupported_message language =
     ''unsupported language: '' @ language @
     ''. Supported: ['python', 'javascript', 'go', 'rust', 'c', 'cpp']''"

definition timeout_message :: string where
  "timeout_message = ''code execution timed out (10s limit for execution, 30s for compilation)''"

definition failed_message :: "string \<Rightarrow> py_error \<Rightarrow> string" where
  "failed_message language e = ''failed to run '' @ language @ '' code: '' @ str_of_error e"

text \<open>
  How the \<^verbatim>\<open>try\<close> block ends: with a \<^verbatim>\<open>return\<close>, or with an exception
  and the local variables \<^verbatim>\<open>temp_path\<close> and \<^verbatim>\<open>output_path\<close> as they are bound at
  that moment (\<open>None\<close>: not yet assigned).
\<close>

datatype try_exit =
    Returned run_result
  | Raised py_error "string option" "string option"

text \<open>The compiler run: the call of \<^verbatim>\<open>subprocess.run\<close> with the 30 second limit, and
  the output file a started compiler may leave behind.\<close>

definition run_compiler ::
  "run_env \<Rightarrow> string list \<Rightarrow> string \<Rightarrow> os_state \<Rightarrow> (py_error + completed_process) \<times> os_state" where
  "run_compiler env argv output_path w =
     (case subprocess_run (compile_proc env) argv 30 w of
        (r, w') \<Rightarrow>
          (r, if compile_writes_output env \<and> (case compile_proc env of Runs ms rc out err \<Rightarrow> True | SpawnFails e \<Rightarrow> False)
              then w'\<lparr>files := (files w')(output_path \<mapsto> ''binary'')\<rparr> else w'))"

text \<open>Lines 522 to 542: execute, clean up, return the success dictionary.\<close>

definition execute_phase ::
  "run_env \<Rightarrow> language_profile \<Rightarrow> string \<Rightarrow> string list \<Rightarrow> string \<Rightarrow> string option \<Rightarrow> os_state
     \<Rightarrow> try_exit \<times> os_state" where
  "execute_phase env config language exec_cmd temp_path output_path w =
     (case subprocess_run (exec_proc env) exec_cmd 10 w of
        (Inl e, w1) \<Rightarrow> (Raised e (Some temp_path) output_path, w1)
      | (Inr result, w1) \<Rightarrow>
          (case os_remove w1 temp_path of
             Inl e \<Rightarrow> (Raised e (Some temp_path) output_path, w1)
           | Inr w2 \<Rightarrow>
               (if compile config \<and> os_path_exists w2 (the output_path)
                then (case os_remove w2 (the output_path) of
                        Inl e \<Rightarrow> (Raised e (Some temp_path) output_path, w2)
                      | Inr w3 \<Rightarrow>
                          (Returned (Success language (stdout result) (stderr result)
                                       (returncode result)), w3))
                else (Returned (Success language (stdout result) (stderr result)
                                  (returncode result)), w2))))"

text \<open>Lines 490 to 520: compile when the language asks for it, then go on to execute.\<close>

definition compile_phase ::
  "run_env \<Rightarrow> language_profile \<Rightarrow> string \<Rightarrow> string \<Rightarrow> os_state \<Rightarrow> try_exit \<times> os_state" where
  "compile_phase env config language temp_path w =
     (if compile config then
        (let output_path = str_replace (ext config) [] temp_path in
         case (if language = ''rust'' then Inr [''rustc'', temp_path, ''-o'', output_path]
               else (case compiler config of
                       None \<Rightarrow> Inl (KeyError ''compiler'')
                     | Some cc \<Rightarrow> Inr [cc, temp_path, ''-o'', output_path])) of
           Inl e \<Rightarrow> (Raised e (Some temp_path) (Some output_path), w)
         | Inr compile_cmd \<Rightarrow>
             (case run_compiler env compile_cmd output_path w of
                (Inl e, w1) \<Rightarrow> (Raised e (Some temp_path) (Some output_path), w1)
              | (Inr compile_result, w1) \<Rightarrow>
                  if returncode compile_result \<noteq> 0 then
                    (case os_remove w1 temp_path of
                       Inl e \<Rightarrow> (Raised e (Some temp_path) (Some output_path), w1)
                     | Inr w2 \<Rightarrow>
                         (Returned (CompilationError language (stderr compile_result)
                                      (returncode compile_result)), w2))
                  else execute_phase env config language [output_path] temp_path
                         (Some output_path) w1))
      else
        (case cmd config of
           None \<Rightarrow> (Raised (KeyError ''cmd'') (Some temp_path) None, w)
         | Some c \<Rightarrow> execute_phase env config language (c @ [temp_path]) temp_path None w))"

text \<open>Lines 470 to 488 and on: the whole \<^verbatim>\<open>try\<close> block.\<close>

definition try_block ::
  "run_env \<Rightarrow> os_state \<Rightarrow> string \<Rightarrow> string \<Rightarrow> try_exit \<times> os_state" where
  "try_block env w code language =
     (case lang_config language of
        None \<Rightarrow> (Returned (ErrorResult (unsupported_message language)), w)
      | Some config \<Rightarrow>
          (let temp_path = tmp_stem env @ ext config in
           case materialize env of
             CreateFails e \<Rightarrow> (Raised e None None, w)
           | WriteFails e \<Rightarrow> (Raised e None None, w\<lparr>files := (files w)(temp_path \<mapsto> [])\<rparr>)
           | CloseFails e \<Rightarrow>
               (Raised e (Some temp_path) None, w\<lparr>files := (files w)(temp_path \<mapsto> [])\<rparr>)
           | Materialized \<Rightarrow>
               compile_phase env config language temp_path
                 (w\<lparr>files := (files w)(temp_path \<mapsto> code)\<rparr>)))"

text \<open>
  The clean-up both \<^verbatim>\<open>except\<close> clauses start with. Reading \<^verbatim>\<open>temp_path\<close>
  while it is unbound raises \<^verbatim>\<open>UnboundLocalError\<close>, which leaves the function;
  \<^verbatim>\<open>output_path\<close> is guarded by \<^verbatim>\<open>'output_path' in locals()\<close>.
\<close>

definition handler_cleanup ::
  "bool \<Rightarrow> string option \<Rightarrow> string option \<Rightarrow> os_state \<Rightarrow> py_error + os_state" where
  "handler_cleanup compiles temp_path output_path w =
     (case temp_path of
        None \<Rightarrow> Inl (UnboundLocalError ''temp_path'')
      | Some tp \<Rightarrow>
          (case (if os_path_exists w tp then os_remove w tp else Inr w) of
             Inl e \<Rightarrow> Inl e
           | Inr w1 \<Rightarrow>
               (if compiles \<and> output_path \<noteq> None \<and> os_path_exists w1 (the output_path)
                then os_remove w1 (the output_path) else Inr w1)))"

definition run_code ::
  "run_env \<Rightarrow> os_state \<Rightarrow> string \<Rightarrow> string \<Rightarrow> (py_error + run_result) \<times> os_state" where
  "run_code env w code language =
     (case try_block env w code language of
        (Returned r, w1) \<Rightarrow> (Inr r, w1)
      | (Raised e temp_path output_path, w1) \<Rightarrow>
          (case handler_cleanup (case lang_config language of None \<Rightarrow> False | Some config \<Rightarrow> compile config)
                  temp_path output_path w1 of
             Inl e' \<Rightarrow> (Inl e', w1)
           | Inr w2 \<Rightarrow>
               (Inr (ErrorResult (if e = TimeoutExpired then timeout_message
                                  else failed_message language e)), w2)))"

section \<open>ToolRegistry.write\_file and ToolRegistry.delete\_file\<close>

text \<open>
  \<^verbatim>\<open>os.path.abspath\<close> on a POSIX host: a relative path is joined to the working
  directory, and the result is normalised as \<^verbatim>\<open>posixpath.normpath\<close> does (empty and
  \<^verbatim>\<open>.\<close> components dropped, \<^verbatim>\<open>..\<close> resolved, exactly two leading slashes kept).
\<close>

fun split_sep :: "string \<Rightarrow> string list" where
  "split_sep [] = [[]]"
| "split_sep (c # s) =
     (if c = CHR ''/'' then [] # split_sep s
      else (case split_sep s of [] \<Rightarrow> [[c]] | x # xs \<Rightarrow> (c # x) # xs))"

fun join_sep :: "string list \<Rightarrow> string" where
  "join_sep [] = []"
| "join_sep [x] = x"
| "join_sep (x # y # ys) = x @ ''/'' @ join_sep (y # ys)"

definition norm_step :: "nat \<Rightarrow> string list \<Rightarrow> string \<Rightarrow> string list" where
  "norm_step initial_slashes new_comps part =
     (if part = [] \<or> part = ''.'' then new_comps
      else if part \<noteq> ''..'' \<or> (initial_slashes = 0 \<and> new_comps = [])
              \<or> (new_comps \<noteq> [] \<and> last new_comps = ''..'')
      then new_comps @ [part]
      else if new_comps \<noteq> [] then butlast new_comps
      else new_comps)"

definition normpath :: "string \<Rightarrow> string" where
  "normpath path =
     (if path = [] then ''.''
      else
        (let initial_slashes =
               (if prefix ''/'' path
                then (if prefix ''//'' path \<and> \<not> prefix ''///'' path then 2 else 1)
                else (0::nat));
             comps = foldl (norm_step initial_slashes) [] (split_sep path);
             joined = replicate initial_slashes CHR ''/'' @ join_sep comps
         in if joined = [] then ''.'' else joined))"

definition path_join :: "string \<Rightarrow> string \<Rightarrow> string" where
  "path_join a b =
     (if prefix ''/'' b then b
      else if a = [] \<or> last a = CHR ''/'' then a @ b
      else a @ ''/'' @ b)"

definition abspath :: "string \<Rightarrow> string \<Rightarrow> string" where
  "abspath cwd path = normpath (if prefix ''/'' path then path else path_join cwd path)"

text \<open>The security settings of \<^verbatim>\<open>ToolRegistry.__init__\<close>.\<close>

record tool_registry =
  safe_write_directories :: "string list"
  command_whitelist :: "string list"

definition registry_init :: tool_registry where
  "registry_init = \<lparr>
     safe_write_directories = [''/app/uploads'', ''/tmp''],
     command_whitelist = [''ls'', ''pwd'', ''cat'', ''grep'', ''find'', ''wc'', ''head'', ''tail''] \<rparr>"

text \<open>\<^verbatim>\<open>any(abs_path.startswith(safe_dir) for safe_dir in self.safe_write_directories)\<close>\<close>

definition is_safe :: "tool_registry \<Rightarrow> string \<Rightarrow> bool" where
  "is_safe reg abs_path = list_ex (\<lambda>safe_dir. prefix safe_dir abs_path) (safe_write_directories reg)"

text \<open>
  What the host does during one file operation: the working directory, and the exception
  (if any) that \<^verbatim>\<open>os.makedirs\<close>, opening and writing the file, or \<^verbatim>\<open>os.remove\<close>
  ends with for a reason the model does not track (permissions, a full disk).
\<close>

record fs_env =
  cwd :: string
  makedirs_error :: "py_error option"
  open_error :: "py_error option"
  remove_error :: "py_error option"

text \<open>
  The dictionaries of the two tools: \<^verbatim>\<open>{"error": ...}\<close> with or without a
  \<^verbatim>\<open>"path"\<close> key, the success of \<^verbatim>\<open>write_file\<close> (path, bytes written) and the
  success of \<^verbatim>\<open>delete_file\<close> (path).
\<close>

datatype file_result =
    FileError string "string option"
  | Written string nat
  | Deleted string

text \<open>\<^verbatim>\<open>str(list_of_strings)\<close>, for names without quotes or backslashes.\<close>

definition repr_list :: "string list \<Rightarrow> string" where
  "repr_list xs = ''['' @ concat (case xs of [] \<Rightarrow> []
       | y # ys \<Rightarrow> ([CHR 0x27] @ y @ [CHR 0x27]) # map (\<lambda>x. '', '' @ [CHR 0x27] @ x @ [CHR 0x27]) ys) @ '']''"

definition write_file ::
  "tool_registry \<Rightarrow> fs_env \<Rightarrow> os_state \<Rightarrow> string \<Rightarrow> string \<Rightarrow> file_result \<times> os_state" where
  "write_file reg env w path content =
     (let abs_path = abspath (cwd env) path in
      if \<not> is_safe reg abs_path
      then (FileError (''permission denied: can only write to '' @
                        repr_list (safe_write_directories reg)) (Some path), w)
      else
        (case makedirs_error env of
           Some e \<Rightarrow> (FileError (''failed to write file: '' @ str_of_error e) None, w)
         | None \<Rightarrow>
             (case open_error env of
                Some e \<Rightarrow> (FileError (''failed to write file: '' @ str_of_error e) None, w)
              | None \<Rightarrow>
                  (Written abs_path (length content),
                   w\<lparr>files := (files w)(abs_path \<mapsto> content)\<rparr>))))"

definition delete_file ::
  "tool_registry \<Rightarrow> fs_env \<Rightarrow> os_state \<Rightarrow> string \<Rightarrow> file_result \<times> os_state" where
  "delete_file reg env w path =
     (let abs_path = abspath (cwd env) path in
      if \<not> is_safe reg abs_path
      then (FileError ''permission denied: can only delete from safe directories'' None, w)
      else if \<not> os_path_exists w abs_path
      then (FileError (''file not found: '' @ path) None, w)
      else
        (case remove_error env of
           Some e \<Rightarrow> (FileError (''failed to delete file: '' @ str_of_error e) None, w)
         | None \<Rightarrow>
             (case os_remove w abs_path of
                Inl e \<Rightarrow> (FileError (''failed to delete file: '' @ str_of_error e) None, w)
              | Inr w' \<Rightarrow> (Deleted abs_path, w'))))"

text \<open>
  A path lies inside a directory when it is the directory itself or continues it after a
  separator; this is the containment the plain prefix test is compared with.
\<close>

definition inside_directory :: "string \<Rightarrow> string \<Rightarrow> bool" where
  "inside_directory dir p = (p = dir \<or> prefix (dir @ ''/'') p)"

section \<open>Phases and their time limits\<close>



section \<open>Concrete requests and environments\<close>


text \<open>The plan \<^verbatim>\<open>verify_fix.py\<close> submits and expects to succeed.\<close>

definition verify_fix_plan :: "string plan" where
  "verify_fix_plan = \<lparr>action = Some ''set_assignment'',
     parameters = Some [(''description'', ''Test assignment''), (''language'', ''python''),
                        (''session_id'', ''test_session_123'')],
     plan_context = None\<rparr>"

text \<open>A plan for an allowed tool with six parameters.\<close>

definition six_parameter_plan :: "string plan" where
  "six_parameter_plan = \<lparr>action = Some ''search_knowledge'',
     parameters = Some [(''query'', ''q''), (''filters'', ''f''), (''session_id'', ''s''),
                        (''a'', ''1''), (''b'', ''2''), (''c'', ''3'')],
     plan_context = None\<rparr>"

text \<open>An operating system with no files and no child processes started yet.\<close>

definition empty_os :: os_state where
  "empty_os = \<lparr>files = Map.empty, subprocess_calls = []\<rparr>"




text \<open>A compiler run that ends with return code 1 and has left a file at its output path.\<close>

definition failed_compile_env :: run_env where
  "failed_compile_env = \<lparr>tmp_stem = ''/tmp/tmpk3v9x2ab'', materialize = Materialized,
     compile_proc = Runs 800 1 [] ''collect2: error: ld returned 1 exit status'',
     compile_writes_output = True, exec_proc = Runs 5 0 [] []\<rparr>"

section \<open>Properties of the control plane\<close>








lemma verify_fix_plan_valid: "validate_request verify_fix_plan"
  by (simp add: validate_request_def verify_fix_plan_def safety_rules_def get_parameters_def
        dict_len_def dict_keys_def)

lemma verify_fix_plan_route:
  "route_and_execute tools (action verify_fix_plan) (get_parameters verify_fix_plan) w = (Inl TypeError, w)"
  by (simp add: route_and_execute_def verify_fix_plan_def tool_map_def get_parameters_def
        binds_def dict_keys_def)

text \<open>
  What does hold of the audit log, for every registry of handlers: one call appends its
  entry exactly when it returns \<^verbatim>\<open>success: True\<close> and changes nothing of the log
  otherwise; the execution count of a success envelope is the length of the log at that
  moment; over any sequence of calls the old log stays a prefix of the new one, and the
  log has grown by the number of calls that returned \<^verbatim>\<open>success: True\<close>.
\<close>

lemma execute_log:
  "execute tools now cp w p = (out, cp', w') \<Longrightarrow>
     execution_log cp' = execution_log cp @
       (if returned_success out
        then [\<lparr>entry_timestamp = now, entry_plan = p,
               entry_result = (case out of Inr (Executed a r n s) \<Rightarrow> r)\<rparr>]
        else [])"
  by (auto simp: execute_def Let_def split: if_splits prod.splits sum.splits)

lemma execute_count:
  "execute tools now cp w p = (Inr env, cp', w') \<Longrightarrow> get_success env = Some True \<Longrightarrow>
     get_execution_count env = Some (length (execution_log cp'))"
  by (auto simp: execute_def Let_def split: if_splits prod.splits sum.splits)

lemma execute_all_log:
  "execute_all tools cp w calls = (outs, cp', w') \<Longrightarrow>
     prefix (execution_log cp) (execution_log cp')
     \<and> length (execution_log cp') = length (execution_log cp) + length (filter returned_success outs)"
proof (induction calls arbitrary: cp w outs cp' w')
  case Nil
  then show ?case by simp
next
  case (Cons c calls)
  obtain now p where c: "c = (now, p)" by (cases c)
  obtain out cp1 w1 where e: "execute tools now cp w p = (out, cp1, w1)" by (cases "execute tools now cp w p")
  obtain outs1 cp2 w2 where r: "execute_all tools cp1 w1 calls = (outs1, cp2, w2)"
    by (cases "execute_all tools cp1 w1 calls")
  from Cons.prems c e r have eq: "outs = out # outs1" "cp' = cp2" by simp_all
  from Cons.IH[OF r] have ih: "prefix (execution_log cp1) (execution_log cp2)"
    "length (execution_log cp2) = length (execution_log cp1) + length (filter returned_success outs1)"
    by simp_all
  from execute_log[OF e] have st: "prefix (execution_log cp) (execution_log cp1)"
     "length (execution_log cp1) = length (execution_log cp) + (if returned_success out then 1 else 0)"
    by simp_all
  from ih st eq show ?case by (auto intro: prefix_order.trans)
qed

text \<open>
  Claim C2, at the plan of \<^verbatim>\<open>verify_fix.py\<close> (\<^verbatim>\<open>set_assignment\<close> with a
  \<^verbatim>\<open>session_id\<close> argument the method does not take). The plan passes validation,
  and the call appends no audit entry: \<^verbatim>\<open>tool_func(**params)\<close> raises
  \<^verbatim>\<open>TypeError\<close>, which leaves \<^verbatim>\<open>execute\<close> before the log is touched. The claim
  asks for exactly one entry for every call that passes validation.
\<close>

theorem validated_call_not_logged:
  "validate_request verify_fix_plan
   \<and> fst (execute tools now cp w verify_fix_plan) = Inl TypeError
   \<and> execution_log (fst (snd (execute tools now cp w verify_fix_plan))) = execution_log cp"
  by (simp add: execute_def verify_fix_plan_valid verify_fix_plan_route)

lemma six_parameter_plan_valid: "validate_request six_parameter_plan"
  by (simp add: validate_request_def six_parameter_plan_def safety_rules_def get_parameters_def
        dict_len_def dict_keys_def)

lemma six_parameter_plan_route:
  "route_and_execute tools (action six_parameter_plan) (get_parameters six_parameter_plan) w = (Inl TypeError, w)"
  by (simp add: route_and_execute_def six_parameter_plan_def tool_map_def get_parameters_def
        binds_def dict_keys_def)

text \<open>
  Claim C5, at a plan with six parameters. The configured ceiling
  \<^verbatim>\<open>max_tools_per_request\<close> is 5, the plan has 6 parameters, and validation accepts it:
  the test in \<^verbatim>\<open>_validate_request\<close> compares with the literal 10 and never reads the
  configured value. \<^verbatim>\<open>execute\<close> goes on to route the action (the call of the handler
  then raises \<^verbatim>\<open>TypeError\<close>, as no method takes six keywords) where the claim asks
  for the safety rejection.
\<close>

theorem six_parameters_pass_validation:
  "max_tools_per_request safety_rules = 5
   \<and> dict_len (get_parameters six_parameter_plan) = 6
   \<and> validate_request six_parameter_plan
   \<and> execute tools now cp w six_parameter_plan = (Inl TypeError, cp, w)"
  by (simp add: execute_def six_parameter_plan_valid six_parameter_plan_route)
     (simp add: safety_rules_def six_parameter_plan_def get_parameters_def dict_len_def dict_keys_def)

section \<open>Properties of run\_code\<close>









lemma handler_cleanup_ok:
  "\<exists>w2. handler_cleanup b (Some tp) op w = Inr w2
        \<and> subprocess_calls w2 = subprocess_calls w
        \<and> files w2 tp = None
        \<and> (b \<longrightarrow> (\<forall>p. op = Some p \<longrightarrow> files w2 p = None))"
  by (auto simp: handler_cleanup_def os_remove_def os_path_exists_def)









text \<open>
  Claim C3, at two inputs. The plan of \<^verbatim>\<open>verify_fix.py\<close> makes \<^verbatim>\<open>execute\<close>
  raise \<^verbatim>\<open>TypeError\<close> instead of returning an envelope. When
  \<^verbatim>\<open>NamedTemporaryFile\<close> fails in \<^verbatim>\<open>run_code\<close>, the \<^verbatim>\<open>except\<close> clause reads
  the unbound \<^verbatim>\<open>temp_path\<close>, and \<^verbatim>\<open>UnboundLocalError\<close> leaves the function.
\<close>

theorem exceptions_leave_the_calls:
  "execute tools now cp w verify_fix_plan = (Inl TypeError, cp, w)
   \<and> run_code (env\<lparr>materialize := CreateFails e\<rparr>) os code ''python''
       = (Inl (UnboundLocalError ''temp_path''), os)"
  by (simp add: execute_def verify_fix_plan_valid verify_fix_plan_route
        run_code_def try_block_def handler_cleanup_def lang_config_def)

text \<open>
  Where the clean-up does hold. Once \<^verbatim>\<open>temp_path\<close> is bound, \<^verbatim>\<open>run_code\<close>
  returns a dictionary and the source file is gone afterwards; for a compiled language
  whose compiler did not end in time with a non-zero return code, the output path holds
  no file afterwards either.
\<close>

lemma execute_phase_clean:
  assumes "execute_phase env config l argv tp op w = (Returned r, w1)" "compile config \<longrightarrow> op = Some p"
  shows "files w1 tp = None \<and> (compile config \<longrightarrow> files w1 p = None)"
  using assms
  by (auto simp: execute_phase_def os_remove_def os_path_exists_def Let_def
           split: prod.splits sum.splits if_splits)

lemma execute_phase_raised:
  assumes "execute_phase env config l argv tp op w = (Raised e t o', w1)"
  shows "t = Some tp \<and> o' = op"
  using assms
  by (auto simp: execute_phase_def Let_def split: prod.splits sum.splits if_splits)

lemma compile_phase_raised:
  assumes "compile_phase env config l tp w = (Raised e t o', w1)"
  shows "t = Some tp \<and> (compile config \<longrightarrow> o' = Some (str_replace (ext config) [] tp))"
  using assms
  by (auto simp: compile_phase_def Let_def dest: execute_phase_raised
           split: prod.splits sum.splits if_splits option.splits)

lemma compile_phase_source:
  assumes "compile_phase env config l tp w = (Returned r, w1)"
  shows "files w1 tp = None"
  using assms
  by (auto simp: compile_phase_def os_remove_def Let_def
           dest: execute_phase_clean[where p = "str_replace (ext config) [] tp"]
           split: prod.splits sum.splits if_splits option.splits)

lemma compile_phase_binary:
  assumes "compile_phase env config l tp w = (Returned r, w1)" "compile config"
    and "\<forall>ms rc out err. compile_proc env = Runs ms rc out err \<and> ms \<le> 30000 \<longrightarrow> rc = 0"
  shows "files w1 (str_replace (ext config) [] tp) = None"
  using assms
  by (auto simp: compile_phase_def run_compiler_def subprocess_run_def Let_def
           dest: execute_phase_clean[where p = "str_replace (ext config) [] tp"]
           split: prod.splits sum.splits if_splits option.splits process.splits)

lemma run_code_removes_source:
  assumes cfg: "lang_config language = Some config"
    and m: "materialize env = Materialized \<or> (\<exists>e. materialize env = CloseFails e)"
  shows "\<exists>r. fst (run_code env w code language) = Inr r"
    and "files (snd (run_code env w code language)) (tmp_stem env @ ext config) = None"
proof -
  let ?tp = "tmp_stem env @ ext config"
  obtain x w1 where t: "try_block env w code language = (x, w1)" by (cases "try_block env w code language")
  have bound: "x = Raised e tpo op \<Longrightarrow> tpo = Some ?tp" for e tpo op
    using t cfg m by (auto simp: try_block_def Let_def dest: compile_phase_raised)
  have ret: "x = Returned r \<Longrightarrow> files w1 ?tp = None" for r
    using t cfg m by (auto simp: try_block_def Let_def dest: compile_phase_source)
  show "\<exists>r. fst (run_code env w code language) = Inr r"
  proof (cases x)
    case (Returned r) with t show ?thesis by (simp add: run_code_def)
  next
    case (Raised e tpo op)
    with bound have "tpo = Some ?tp" by simp
    with Raised t handler_cleanup_ok[of "compile config" ?tp op w1] cfg show ?thesis
      by (auto simp: run_code_def)
  qed
  show "files (snd (run_code env w code language)) ?tp = None"
  proof (cases x)
    case (Returned r) with t ret show ?thesis by (simp add: run_code_def)
  next
    case (Raised e tpo op)
    with bound have "tpo = Some ?tp" by simp
    with Raised t handler_cleanup_ok[of "compile config" ?tp op w1] cfg show ?thesis
      by (auto simp: run_code_def)
  qed
qed

lemma run_code_removes_binary:
  assumes cfg: "lang_config language = Some config" and c: "compile config"
    and m: "materialize env = Materialized"
    and ok: "\<forall>ms rc out err. compile_proc env = Runs ms rc out err \<and> ms \<le> 30000 \<longrightarrow> rc = 0"
  shows "files (snd (run_code env w code language))
           (str_replace (ext config) [] (tmp_stem env @ ext config)) = None"
proof -
  let ?tp = "tmp_stem env @ ext config"
  let ?op = "str_replace (ext config) [] ?tp"
  obtain x w1 where t: "try_block env w code language = (x, w1)" by (cases "try_block env w code language")
  show ?thesis
  proof (cases x)
    case (Returned r)
    with t cfg m have "compile_phase env config language ?tp (w\<lparr>files := (files w)(?tp \<mapsto> code)\<rparr>) = (Returned r, w1)"
      by (simp add: try_block_def Let_def)
    from compile_phase_binary[OF this c ok] Returned t show ?thesis by (simp add: run_code_def)
  next
    case (Raised e tpo op)
    with t cfg m have "compile_phase env config language ?tp (w\<lparr>files := (files w)(?tp \<mapsto> code)\<rparr>) = (Raised e tpo op, w1)"
      by (simp add: try_block_def Let_def)
    from compile_phase_raised[OF this] c have b: "tpo = Some ?tp" "op = Some ?op" by simp_all
    with Raised t handler_cleanup_ok[of "compile config" ?tp op w1] cfg c show ?thesis
      by (auto simp: run_code_def)
  qed
qed

lemma str_replace_c: "str_replace ''.c'' [] ''/tmp/tmpk3v9x2ab.c'' = ''/tmp/tmpk3v9x2ab''"
  by (simp add: str_replace_def)

text \<open>
  Claim C4, at two inputs. When \<^verbatim>\<open>f.write(code)\<close> raises, the file that
  \<^verbatim>\<open>NamedTemporaryFile(delete=False)\<close> created stays on disk and the call ends with
  \<^verbatim>\<open>UnboundLocalError\<close>. When the compiler ends with a non-zero return code after
  leaving a file at its output path, the call returns the compilation error and that file
  stays: this branch removes only the source, where the other three check for the binary.
\<close>

theorem run_code_leaves_files:
  "fst (run_code (env\<lparr>materialize := WriteFails e\<rparr>) os code ''python'')
      = Inl (UnboundLocalError ''temp_path'')
   \<and> files (snd (run_code (env\<lparr>materialize := WriteFails e\<rparr>) os code ''python''))
        (tmp_stem env @ ''.py'') = Some []
   \<and> fst (run_code failed_compile_env empty_os ''int main(){}'' ''c'')
      = Inr (CompilationError ''c'' ''collect2: error: ld returned 1 exit status'' 1)
   \<and> files (snd (run_code failed_compile_env empty_os ''int main(){}'' ''c'')) ''/tmp/tmpk3v9x2ab''
      = Some ''binary''"
  by (simp add: run_code_def try_block_def handler_cleanup_def lang_config_def
        compile_phase_def run_compiler_def subprocess_run_def os_remove_def
        failed_compile_env_def empty_os_def str_replace_c Let_def)

text \<open>
  Claim C8, for streams of any length. The output and error streams of the executed
  program, and the error stream of a failed compiler, are put into the result as they
  are; nothing in \<^verbatim>\<open>run_code\<close> cuts them, where \<^verbatim>\<open>execute_command\<close> keeps the
  first 1000 characters of each stream.
\<close>

theorem run_code_output_verbatim:
  "fst (run_code \<lparr>tmp_stem = stem, materialize = Materialized, compile_proc = cproc,
                  compile_writes_output = b, exec_proc = Runs 0 rc out err\<rparr> os code ''python'')
     = Inr (Success ''python'' out err rc)
   \<and> fst (run_code \<lparr>tmp_stem = stem, materialize = Materialized, compile_proc = Runs 0 1 cout cerr,
                  compile_writes_output = b, exec_proc = eproc\<rparr> os code ''cpp'')
     = Inr (CompilationError ''cpp'' cerr 1)"
  by (simp add: run_code_def try_block_def lang_config_def
        compile_phase_def execute_phase_def run_compiler_def subprocess_run_def os_remove_def
        os_path_exists_def Let_def)

section \<open>Properties of write\_file and delete\_file\<close>

text \<open>
  Claim C9. When no entry of \<^verbatim>\<open>safe_write_directories\<close> is a prefix of the absolute
  path of the target, \<^verbatim>\<open>write_file\<close> and \<^verbatim>\<open>delete_file\<close> return their
  permission-denied dictionaries and the operating system is as it was before the call:
  no file created, changed or removed, whatever the host would have done.
\<close>

theorem file_tools_refuse_outside_roots:
  assumes "\<forall>root \<in> set (safe_write_directories reg). \<not> prefix root (abspath (cwd env) path)"
  shows "write_file reg env w path content
           = (FileError (''permission denied: can only write to '' @
                          repr_list (safe_write_directories reg)) (Some path), w)
       \<and> delete_file reg env w path
           = (FileError ''permission denied: can only delete from safe directories'' None, w)"
proof -
  from assms have "\<not> is_safe reg (abspath (cwd env) path)"
    by (simp add: is_safe_def list_ex_iff)
  then show ?thesis by (simp add: write_file_def delete_file_def Let_def)
qed

lemma abspath_notes: "abspath ''/home/user'' ''notes.txt'' = ''/home/user/notes.txt''"
  by (simp add: abspath_def normpath_def path_join_def norm_step_def Let_def)

text \<open>A relative path under \<^verbatim>\<open>/home/user\<close>: both tools refuse, the existing file is
  untouched.\<close>

theorem file_tools_refuse_outside_roots_witness:
  "write_file registry_init \<lparr>cwd = ''/home/user'', makedirs_error = None, open_error = None,
        remove_error = None\<rparr> \<lparr>files = [''/home/user/notes.txt'' \<mapsto> ''old''], subprocess_calls = []\<rparr>
        ''notes.txt'' ''new''
     = (FileError ''permission denied: can only write to ['/app/uploads', '/tmp']'' (Some ''notes.txt''),
        \<lparr>files = [''/home/user/notes.txt'' \<mapsto> ''old''], subprocess_calls = []\<rparr>)
   \<and> delete_file registry_init \<lparr>cwd = ''/home/user'', makedirs_error = None, open_error = None,
        remove_error = None\<rparr> \<lparr>files = [''/home/user/notes.txt'' \<mapsto> ''old''], subprocess_calls = []\<rparr>
        ''notes.txt''
     = (FileError ''permission denied: can only delete from safe directories'' None,
        \<lparr>files = [''/home/user/notes.txt'' \<mapsto> ''old''], subprocess_calls = []\<rparr>)"
  using file_tools_refuse_outside_roots [of registry_init
      "\<lparr>cwd = ''/home/user'', makedirs_error = None, open_error = None, remove_error = None\<rparr>"
      "''notes.txt''" "\<lparr>files = [''/home/user/notes.txt'' \<mapsto> ''old''], subprocess_calls = []\<rparr>" "''new''"]
  by (simp add: abspath_notes registry_init_def repr_list_def)

lemma abspath_tmpdata: "abspath c ''/tmpdata/x'' = ''/tmpdata/x''"
  by (simp add: abspath_def normpath_def norm_step_def Let_def)

text \<open>
  Claim C10. The path \<^verbatim>\<open>/tmpdata/x\<close> is its own absolute form and lies inside neither
  \<^verbatim>\<open>/app/uploads\<close> nor \<^verbatim>\<open>/tmp\<close>, yet it starts with the characters of
  \<^verbatim>\<open>/tmp\<close>: the check passes, \<^verbatim>\<open>write_file\<close> writes the file and
  \<^verbatim>\<open>delete_file\<close> removes it.
\<close>

theorem prefix_check_has_no_boundary:
  "abspath c ''/tmpdata/x'' = ''/tmpdata/x''
   \<and> list_all (\<lambda>d. \<not> inside_directory d ''/tmpdata/x'') (safe_write_directories registry_init)
   \<and> is_safe registry_init ''/tmpdata/x''
   \<and> write_file registry_init
        \<lparr>cwd = c, makedirs_error = None, open_error = None, remove_error = r\<rparr> w ''/tmpdata/x'' content
      = (Written ''/tmpdata/x'' (length content), w\<lparr>files := (files w)(''/tmpdata/x'' \<mapsto> content)\<rparr>)
   \<and> delete_file registry_init
        \<lparr>cwd = c, makedirs_error = m, open_error = e, remove_error = None\<rparr>
        (w\<lparr>files := (files w)(''/tmpdata/x'' \<mapsto> content)\<rparr>) ''/tmpdata/x''
      = (Deleted ''/tmpdata/x'', w\<lparr>files := (files w)(''/tmpdata/x'' := None)\<rparr>)"
  by (simp add: abspath_tmpdata is_safe_def registry_init_def inside_directory_def
        write_file_def delete_file_def os_path_exists_def os_remove_def Let_def)

end
